theory Spec2Isabelle
  imports Main "HOL-Library.Word"
begin

section \<open>The contract-interaction client (src/components/Blockchain/contract.ts)\<close>

text \<open>
  The module keeps three module-level bindings (\<open>provider\<close>, \<open>signer\<close>, \<open>contract\<close>) and
  exports asynchronous functions that forward to the bound ethers contract. Every
  function is embedded as a state transformer over a \<open>world\<close>: the three bindings plus
  the trace of externally visible effects (contract calls, confirmation waits, console
  output). A JavaScript exception is the \<open>Inl\<close> branch of the result. The ethers
  objects are not part of the repository: a handle is a record of the outcomes its
  methods produce, so that every theorem holds for whatever the collaborator answers.
\<close>

subsection \<open>JavaScript values\<close>

datatype jsError =
    TypeError string      \<comment> \<open>property access or call on \<open>undefined\<close>\<close>
  | ErrorMsg string       \<comment> \<open>\<open>new Error(msg)\<close> thrown by the module itself\<close>
  | ExternalError string  \<comment> \<open>rejection by the wallet, the network or the contract\<close>

text \<open>
  A JavaScript \<open>number\<close> is an IEEE double. Only integer-valued numbers occur here
  (token identifiers, counts, indices), so a finite number is the integer it denotes.
\<close>

datatype jsnumber = Fin int | NaN | Infinity | NegInfinity

text \<open>Values that reach \<open>Number(...)\<close>: \<open>undefined\<close>, a decoded \<open>bigint\<close>, a number.\<close>

datatype jsval = Undefined | BigIntV int | NumV jsnumber

fun bitlen :: "int \<Rightarrow> nat" where
  "bitlen n = (if n \<le> 0 then 0 else Suc (bitlen (n div 2)))"

declare bitlen.simps [simp del]

text \<open>
  The nearest double of a non-negative integer: 53 significant bits, ties to even. A
  rounded magnitude of more than 1024 bits (\<open>2 ^ 1024\<close> or more) is beyond the largest
  double.
\<close>

definition round_double :: "int \<Rightarrow> int" where
  "round_double n =
     (if n < 2 ^ 53 then n
      else let k = bitlen n - 53;
               q = n div 2 ^ k;
               r = n mod 2 ^ k;
               h = 2 ^ (k - 1)
           in (if h < r \<or> (r = h \<and> odd q) then q + 1 else q) * 2 ^ k)"

definition to_double :: "int \<Rightarrow> jsnumber" where
  "to_double i =
     (let m = round_double \<bar>i\<bar>
      in if 1024 < bitlen m then (if i < 0 then NegInfinity else Infinity)
         else Fin (if i < 0 then - m else m))"

text \<open>\<open>Number(v)\<close>.\<close>

fun Number :: "jsval \<Rightarrow> jsnumber" where
  "Number Undefined = NaN"
| "Number (BigIntV n) = to_double n"
| "Number (NumV x) = x"

text \<open>\<open>a + b\<close> on integer-valued numbers: the exact sum, rounded to a double.\<close>

fun js_add :: "jsnumber \<Rightarrow> jsnumber \<Rightarrow> jsnumber" where
  "js_add (Fin a) (Fin b) = to_double (a + b)"
| "js_add NaN _ = NaN"
| "js_add _ NaN = NaN"
| "js_add Infinity NegInfinity = NaN"
| "js_add NegInfinity Infinity = NaN"
| "js_add Infinity _ = Infinity"
| "js_add _ Infinity = Infinity"
| "js_add NegInfinity _ = NegInfinity"
| "js_add _ NegInfinity = NegInfinity"

text \<open>\<open>xs[i]\<close>: \<open>undefined\<close> (here \<open>None\<close>) out of range.\<close>

definition index_opt :: "'a list \<Rightarrow> nat \<Rightarrow> 'a option" where
  "index_opt xs i = (if i < length xs then Some (xs ! i) else None)"

definition or_undefined :: "jsval option \<Rightarrow> jsval" where
  "or_undefined v = (case v of None \<Rightarrow> Undefined | Some x \<Rightarrow> x)"

subsection \<open>The ethers objects, as the outcomes of their methods\<close>

type_synonym bytes = "8 word list"

record log =
  address :: string
  topics :: "string list"
  data :: string

record LogDescription =
  name :: string
  args :: "jsval list"

record TransactionReceipt =
  logs :: "log list option"

record TransactionResponse =
  hash :: string
  wait :: "jsError + TransactionReceipt option"

text \<open>
  \<open>interface.parseLog\<close> answers \<open>null\<close> for a log that matches no event of the ABI, and
  raises on a log it cannot read (a TypeError on a log without topics, a RangeError on
  data that does not fit the event): like every other method, it is an outcome.
  A range query answers two arrays: token identifiers and cidHashes.
\<close>

record Contract =
  parseLog :: "log \<Rightarrow> jsError + LogDescription option"
  c_mintToken :: "string \<Rightarrow> bytes list \<Rightarrow> jsError + TransactionResponse"
  c_getTokensInRange :: "jsnumber \<Rightarrow> jsnumber \<Rightarrow> jsError + (jsval list \<times> string list)"
  c_getSharedTokensInRange :: "jsnumber \<Rightarrow> jsnumber \<Rightarrow> jsError + (jsval list \<times> string list)"
  c_getSharedWithAddresses :: "jsnumber \<Rightarrow> jsError + string list"
  c_transferToken :: "string \<Rightarrow> jsnumber \<Rightarrow> jsError + TransactionResponse"
  c_shareToken :: "jsnumber \<Rightarrow> string \<Rightarrow> jsError + TransactionResponse"
  c_burnToken :: "jsnumber \<Rightarrow> jsnumber \<Rightarrow> jsError + TransactionResponse"
  c_getSupply :: "jsError + jsval"
  c_getSharedWithSupply :: "jsError + jsval"
  c_reencrypt :: "jsnumber \<Rightarrow> bytes \<Rightarrow> string \<Rightarrow> jsError + string list option"
  c_revokeTokenAccess :: "jsnumber \<Rightarrow> string \<Rightarrow> jsError + TransactionResponse"
  c_revokeAllSharedAccess :: "jsnumber \<Rightarrow> jsnumber \<Rightarrow> jsError + TransactionResponse"
  c_MAX_USERS_TO_REMOVE :: "jsError + jsval"

record Signer =
  getAddress :: "jsError + string"

record BrowserProvider =
  getSigner :: "jsError + Signer"
  send :: "string \<Rightarrow> jsError + unit"

record Ethereum =
  request :: "string \<Rightarrow> jsError + unit"

text \<open>
  What module initialisation finds in the browser: \<open>window.ethereum\<close> (absent without
  a wallet) and the outcomes of the two ethers constructors.
\<close>

record env =
  window_ethereum :: "Ethereum option"
  new_BrowserProvider :: "Ethereum \<Rightarrow> jsError + BrowserProvider"
  new_Contract :: "string \<Rightarrow> Signer \<Rightarrow> jsError + Contract"

subsection \<open>Module state and effects\<close>

datatype effect =
    ContractCall string
  | TxWait
  | WalletRequest string
  | ProviderSend string
  | GetSigner
  | GetAddress
  | NewBrowserProvider
  | NewContract
  | ConsoleError string
  | ConsoleWarn string
  | ConsoleLog string

text \<open>\<open>None\<close> is \<open>null\<close> or \<open>undefined\<close>: the bindings are declared without initialiser.\<close>

record world =
  provider :: "BrowserProvider option"
  signer :: "Signer option"
  contract :: "Contract option"
  trace :: "effect list"

type_synonym 'a js = "world \<Rightarrow> (jsError + 'a) \<times> world"

definition return_js :: "'a \<Rightarrow> 'a js" where
  "return_js a w = (Inr a, w)"

definition throw_js :: "jsError \<Rightarrow> 'a js" where
  "throw_js e w = (Inl e, w)"

definition bind_js :: "'a js \<Rightarrow> ('a \<Rightarrow> 'b js) \<Rightarrow> 'b js" where
  "bind_js m f w = (case m w of (Inl e, w') \<Rightarrow> (Inl e, w') | (Inr a, w') \<Rightarrow> f a w')"

definition try_catch :: "'a js \<Rightarrow> (jsError \<Rightarrow> 'a js) \<Rightarrow> 'a js" where
  "try_catch m h w = (case m w of (Inl e, w') \<Rightarrow> h e w' | (Inr a, w') \<Rightarrow> (Inr a, w'))"

text \<open>An external call: the effect is recorded, the outcome is the collaborator's.\<close>

definition perform :: "effect \<Rightarrow> jsError + 'a \<Rightarrow> 'a js" where
  "perform ef r w = (r, w\<lparr>trace := trace w @ [ef]\<rparr>)"

definition console_error :: "string \<Rightarrow> unit js" where
  "console_error msg = perform (ConsoleError msg) (Inr ())"

definition console_warn :: "string \<Rightarrow> unit js" where
  "console_warn msg = perform (ConsoleWarn msg) (Inr ())"

definition console_log :: "string \<Rightarrow> unit js" where
  "console_log msg = perform (ConsoleLog msg) (Inr ())"

text \<open>
  \<open>await contract?.m(...)\<close>: with no contract bound the optional chain yields
  \<open>undefined\<close> and nothing is called.
\<close>

definition contract_call :: "string \<Rightarrow> (Contract \<Rightarrow> jsError + 'a) \<Rightarrow> 'a option js" where
  "contract_call m f w =
     (case contract w of
        None \<Rightarrow> (Inr None, w)
      | Some c \<Rightarrow> perform (ContractCall m) (map_sum (\<lambda>e. e) Some (f c)) w)"

text \<open>\<open>await tx.wait()\<close>: a TypeError when \<open>tx\<close> is \<open>undefined\<close>.\<close>

definition tx_wait :: "TransactionResponse option \<Rightarrow> TransactionReceipt option js" where
  "tx_wait tx =
     (case tx of
        None \<Rightarrow> throw_js (TypeError ''Cannot read properties of undefined (reading 'wait')'')
      | Some t \<Rightarrow> perform TxWait (wait t))"

definition setAbsent :: "unit js" where
  "setAbsent w = (Inr (), w\<lparr>provider := None, signer := None, contract := None\<rparr>)"

subsection \<open>Connection manager\<close>

definition contractAddress :: string where
  "contractAddress = ''0xDCc49e76b061db2AA11013cB47f5D9ebfC131361''"

definition initializeProviderAndSigner :: "env \<Rightarrow> unit js" where
  "initializeProviderAndSigner ev =
     try_catch
       (case window_ethereum ev of
          Some eth \<Rightarrow>
            bind_js (perform NewBrowserProvider (new_BrowserProvider ev eth)) (\<lambda>p.
            bind_js (\<lambda>w. (Inr (), w\<lparr>provider := Some p\<rparr>)) (\<lambda>_.
            bind_js (perform (WalletRequest ''eth_requestAccounts'') (request eth ''eth_requestAccounts'')) (\<lambda>_.
            bind_js (perform GetSigner (getSigner p)) (\<lambda>s.
            bind_js (\<lambda>w. (Inr (), w\<lparr>signer := Some s\<rparr>)) (\<lambda>_.
            bind_js (perform NewContract (new_Contract ev contractAddress s)) (\<lambda>c.
            (\<lambda>w. (Inr (), w\<lparr>contract := Some c\<rparr>))))))))
        | None \<Rightarrow>
            bind_js (console_warn ''MetaMask or Web3 provider not found. Please install or enable it.'') (\<lambda>_.
            setAbsent))
       (\<lambda>error.
          bind_js (console_error ''Error initializing Web3 provider:'') (\<lambda>_. setAbsent))"

definition getAccount :: "string js" where
  "getAccount w =
     (case (provider w, signer w) of
        (Some p, Some s) \<Rightarrow>
          try_catch
            (bind_js (perform (ProviderSend ''eth_requestAccounts'') (send p ''eth_requestAccounts'')) (\<lambda>_.
             bind_js (perform GetAddress (getAddress s)) (\<lambda>account.
             if account = [] then
               bind_js (console_error ''No accessible accounts. Make sure MetaMask is connected.'') (\<lambda>_.
               return_js [])
             else return_js account)))
            (\<lambda>error.
               bind_js (console_error ''Could not get access to accounts:'') (\<lambda>_. return_js []))
            w
      | _ \<Rightarrow> return_js [] w)"

subsection \<open>Event extractor\<close>

text \<open>
  The interface declares \<open>tokenId: number\<close> and \<open>cidHash: string\<close>. The fields hold
  what the code puts there at run time: \<open>mintToken\<close> stores \<open>Number(args[0])\<close> and the
  string it was given, while the range queries pass the elements of the answer through
  unconverted, and \<open>cidHashs[index]\<close> is \<open>undefined\<close> (here \<open>None\<close>) past the end of the
  array.
\<close>

record TokenDetails =
  tokenId :: jsval
  cidHash :: "string option"

text \<open>
  The loop of \<open>getEvent\<close> over \<open>receipt.logs\<close>: \<open>contract?.interface.parseLog(log)\<close> is
  \<open>undefined\<close> without a contract (nothing is called), and \<open>event?.name === eventName\<close>
  is then false. The loop has no \<open>try\<close>: an exception of \<open>parseLog\<close> ends it and is
  the outcome of \<open>getEvent\<close>.
\<close>

fun scanLogs :: "Contract option \<Rightarrow> string \<Rightarrow> log list \<Rightarrow> jsError + LogDescription option" where
  "scanLogs c eventName [] = Inr None"
| "scanLogs c eventName (l # ls) =
     (case (case c of None \<Rightarrow> Inr None | Some c' \<Rightarrow> parseLog c' l) of
        Inl e \<Rightarrow> Inl e
      | Inr event \<Rightarrow>
          if (case event of None \<Rightarrow> False | Some ev \<Rightarrow> name ev = eventName) then Inr event
          else scanLogs c eventName ls)"

definition getEvent :: "TransactionResponse option \<Rightarrow> string \<Rightarrow> LogDescription option js" where
  "getEvent tx eventName =
     bind_js (tx_wait tx) (\<lambda>receipt w.
       (case receipt of
          None \<Rightarrow> Inr None
        | Some r \<Rightarrow> (case logs r of
                      None \<Rightarrow> Inr None
                    | Some ls \<Rightarrow> scanLogs (contract w) eventName ls), w))"

subsection \<open>Call adapter\<close>

definition mintToken :: "string \<Rightarrow> bytes list \<Rightarrow> TokenDetails js" where
  "mintToken cid encryptedFileKey =
     try_catch
       (bind_js (contract_call ''mintToken'' (\<lambda>c. c_mintToken c cid encryptedFileKey)) (\<lambda>txResponse.
        bind_js (getEvent txResponse ''TokenMinted'') (\<lambda>tokenMintedEvent.
        case tokenMintedEvent of
          None \<Rightarrow> throw_js (ErrorMsg ''TokenMinted event not found.'')
        | Some ev \<Rightarrow>
            return_js \<lparr>tokenId = NumV (Number (or_undefined (index_opt (args ev) 0))),
                       cidHash = Some cid\<rparr>)))
       (\<lambda>error.
          bind_js (console_error ''Error in contract.mintToken:'') (\<lambda>_. throw_js error))"

text \<open>
  \<open>tokenIds.map((tokenId, index) => ({tokenId, cidHash: cidHashs[index]}))\<close>, the
  index running from \<open>i\<close>.
\<close>

fun mapTokens :: "nat \<Rightarrow> jsval list \<Rightarrow> string list \<Rightarrow> TokenDetails list" where
  "mapTokens i [] cidHashs = []"
| "mapTokens i (t # ts) cidHashs =
     \<lparr>tokenId = t, cidHash = index_opt cidHashs i\<rparr> # mapTokens (Suc i) ts cidHashs"

text \<open>\<open>result[0]\<close> and \<open>result[1]\<close>: a TypeError when \<open>result\<close> is \<open>undefined\<close>.\<close>

definition tokensOfResult :: "(jsval list \<times> string list) option \<Rightarrow> TokenDetails list js" where
  "tokensOfResult result =
     (case result of
        None \<Rightarrow> throw_js (TypeError ''Cannot read properties of undefined (reading '0')'')
      | Some (tokenIds, cidHashs) \<Rightarrow> return_js (mapTokens 0 tokenIds cidHashs))"

definition getTokensInRange :: "jsnumber \<Rightarrow> jsnumber \<Rightarrow> TokenDetails list js" where
  "getTokensInRange start count =
     try_catch
       (let end = js_add start count in
        bind_js (contract_call ''getTokensInRange'' (\<lambda>c. c_getTokensInRange c start end)) (\<lambda>result.
        tokensOfResult result))
       (\<lambda>error.
          bind_js (console_error ''Error contract.getTokensInRange:'') (\<lambda>_. return_js []))"

definition getSharedTokensInRange :: "jsnumber \<Rightarrow> jsnumber \<Rightarrow> TokenDetails list js" where
  "getSharedTokensInRange start count =
     try_catch
       (let end = js_add start count in
        bind_js (contract_call ''getSharedTokensInRange'' (\<lambda>c. c_getSharedTokensInRange c start end)) (\<lambda>result.
        tokensOfResult result))
       (\<lambda>error.
          bind_js (console_error ''Error in fetching shared tokens:'') (\<lambda>_. return_js []))"

text \<open>The result \<open>None\<close> is \<open>undefined\<close>: the awaited value is returned as it is.\<close>

definition getSharedWithAddresses :: "jsnumber \<Rightarrow> string list option js" where
  "getSharedWithAddresses tid =
     try_catch
       (bind_js (contract_call ''getSharedWithAddresses'' (\<lambda>c. c_getSharedWithAddresses c tid)) (\<lambda>addresses.
        return_js addresses))
       (\<lambda>error.
          bind_js (console_error ''Error fetching shared addresses:'') (\<lambda>_. return_js (Some [])))"

definition transferToken :: "string \<Rightarrow> jsnumber \<Rightarrow> bool js" where
  "transferToken to tid =
     try_catch
       (bind_js (contract_call ''transferToken'' (\<lambda>c. c_transferToken c to tid)) (\<lambda>tx.
        bind_js (tx_wait tx) (\<lambda>_.
        return_js True)))
       (\<lambda>error.
          bind_js (console_error ''Error transferring token:'') (\<lambda>_. return_js False))"

definition shareToken :: "string \<Rightarrow> jsnumber \<Rightarrow> bool js" where
  "shareToken to tid =
     try_catch
       (bind_js (if length to = 0 then throw_js (ErrorMsg ''Recipient list cannot be empty.'')
                 else return_js ()) (\<lambda>_.
        bind_js (contract_call ''shareToken'' (\<lambda>c. c_shareToken c tid to)) (\<lambda>tx.
        bind_js (tx_wait tx) (\<lambda>_.
        return_js True))))
       (\<lambda>error.
          bind_js (console_error ''Error contract.shareToken:'') (\<lambda>_. return_js False))"

text \<open>\<open>tx.hash\<close>: a TypeError when \<open>tx\<close> is \<open>undefined\<close>.\<close>

definition tx_hash :: "TransactionResponse option \<Rightarrow> string js" where
  "tx_hash tx =
     (case tx of
        None \<Rightarrow> throw_js (TypeError ''Cannot read properties of undefined (reading 'hash')'')
      | Some t \<Rightarrow> return_js (hash t))"

definition burnToken :: "jsnumber \<Rightarrow> jsnumber \<Rightarrow> bool js" where
  "burnToken tid limitNumberOfSharedWith =
     try_catch
       (bind_js (contract_call ''burnToken'' (\<lambda>c. c_burnToken c tid limitNumberOfSharedWith)) (\<lambda>tx.
        bind_js (tx_hash tx) (\<lambda>h.
        bind_js (console_log (''Transaction hash: '' @ h)) (\<lambda>_.
        bind_js (tx_wait tx) (\<lambda>_.
        return_js True)))))
       (\<lambda>error.
          bind_js (console_error ''Error contract.burnToken :'') (\<lambda>_. return_js False))"

definition getSupply :: "jsnumber js" where
  "getSupply =
     try_catch
       (bind_js (contract_call ''getSupply'' c_getSupply) (\<lambda>totalNFTs.
        return_js (Number (or_undefined totalNFTs))))
       (\<lambda>error.
          bind_js (console_error ''Failed to fetch the total number of NFTs:'') (\<lambda>_. throw_js error))"

definition getSharedWithSupply :: "jsnumber js" where
  "getSharedWithSupply =
     try_catch
       (bind_js (contract_call ''getSharedWithSupply'' c_getSharedWithSupply) (\<lambda>totalSharedWithNFTs.
        return_js (Number (or_undefined totalSharedWithNFTs))))
       (\<lambda>error.
          bind_js (console_error ''Failed to fetch the total number of NFTs shared: '') (\<lambda>_. throw_js error))"

text \<open>
  \<open>!data\<close> holds for \<open>undefined\<close> and \<open>null\<close> (here \<open>None\<close>, from the optional chain or
  from the contract); an empty array is truthy.
\<close>

definition reencrypt :: "jsnumber \<Rightarrow> bytes \<Rightarrow> string \<Rightarrow> string list js" where
  "reencrypt tid publicKey signature =
     try_catch
       (bind_js (contract_call ''reencrypt'' (\<lambda>c. c_reencrypt c tid publicKey signature)) (\<lambda>data.
        case data of
          Some (Some d) \<Rightarrow> return_js d
        | _ \<Rightarrow> bind_js (console_error ''No return for contract.reencrypt'') (\<lambda>_. return_js [])))
       (\<lambda>error.
          bind_js (console_error ''Error fetching contract.reencrypt :'') (\<lambda>_. return_js []))"

definition revokeTokenAccess :: "jsnumber \<Rightarrow> string \<Rightarrow> bool js" where
  "revokeTokenAccess tid userAddress =
     try_catch
       (bind_js (contract_call ''revokeTokenAccess'' (\<lambda>c. c_revokeTokenAccess c tid userAddress)) (\<lambda>tx.
        bind_js (tx_wait tx) (\<lambda>_.
        return_js True)))
       (\<lambda>error.
          bind_js (console_error ''Error revoking access:'') (\<lambda>_. return_js False))"

definition revokeAllSharedAccess :: "jsnumber \<Rightarrow> jsnumber \<Rightarrow> bool js" where
  "revokeAllSharedAccess tid limitNumberOfSharedWith =
     try_catch
       (bind_js (contract_call ''revokeAllSharedAccess''
                   (\<lambda>c. c_revokeAllSharedAccess c tid limitNumberOfSharedWith)) (\<lambda>tx.
        bind_js (tx_wait tx) (\<lambda>_.
        return_js True)))
       (\<lambda>error.
          bind_js (console_error ''Error revoking all shared access:'') (\<lambda>_. return_js False))"

text \<open>The awaited value is returned as it is: \<open>undefined\<close> when nothing was called.\<close>

definition getMaxUsersToRemove :: "jsval js" where
  "getMaxUsersToRemove =
     try_catch
       (bind_js (contract_call ''MAX_USERS_TO_REMOVE'' c_MAX_USERS_TO_REMOVE) (\<lambda>maxUsersToRemove.
        return_js (or_undefined maxUsersToRemove)))
       (\<lambda>error.
          bind_js (console_error ''Error fetching MAX_USERS_TO_REMOVE:'') (\<lambda>_. return_js (NumV (Fin 0))))"

subsection \<open>Notions used to state the properties\<close>

text \<open>Connection State: the three module-level bindings.\<close>

definition conn :: "world \<Rightarrow> BrowserProvider option \<times> Signer option \<times> Contract option" where
  "conn w = (provider w, signer w, contract w)"

definition allPresent :: "world \<Rightarrow> bool" where
  "allPresent w =
     (case (provider w, signer w, contract w) of (Some _, Some _, Some _) \<Rightarrow> True | _ \<Rightarrow> False)"

definition allAbsent :: "world \<Rightarrow> bool" where
  "allAbsent w =
     (case (provider w, signer w, contract w) of (None, None, None) \<Rightarrow> True | _ \<Rightarrow> False)"

text \<open>A computation that leaves Connection State as it found it.\<close>

definition frame :: "'a js \<Rightarrow> bool" where
  "frame m = (\<forall>w. conn (snd (m w)) = conn w)"

text \<open>A log decodes, against the contract's interface, to an event of the given name.\<close>

definition decodesTo :: "Contract \<Rightarrow> string \<Rightarrow> log \<Rightarrow> bool" where
  "decodesTo c eventName l =
     (case parseLog c l of
        Inl e \<Rightarrow> False
      | Inr None \<Rightarrow> False
      | Inr (Some ev) \<Rightarrow> name ev = eventName)"

text \<open>
  A log is passed over by the scan: decoding it returns, with \<open>null\<close> or with an event
  of another name.
\<close>

definition passedOver :: "Contract \<Rightarrow> string \<Rightarrow> log \<Rightarrow> bool" where
  "passedOver c eventName l =
     (case parseLog c l of
        Inl e \<Rightarrow> False
      | Inr None \<Rightarrow> True
      | Inr (Some ev) \<Rightarrow> name ev \<noteq> eventName)"

text \<open>The exceptions \<open>parseLog\<close> raises on the logs of a list, in the order of the logs.\<close>

definition parseErrors :: "Contract \<Rightarrow> log list \<Rightarrow> jsError list" where
  "parseErrors c ls =
     List.map_filter (\<lambda>l. case parseLog c l of Inl e \<Rightarrow> Some e | Inr ev \<Rightarrow> None) ls"

text \<open>
  An outcome of decoding that ends the scan for an event name: an exception, or an
  event of that name.
\<close>

definition endsScan :: "string \<Rightarrow> jsError + LogDescription option \<Rightarrow> bool" where
  "endsScan eventName r =
     (case r of
        Inl e \<Rightarrow> True
      | Inr None \<Rightarrow> False
      | Inr (Some ev) \<Rightarrow> name ev = eventName)"

text \<open>The log entries of a receipt: none for a missing receipt or a receipt without logs.\<close>

definition receiptLogs :: "TransactionReceipt option \<Rightarrow> log list" where
  "receiptLogs receipt =
     (case receipt of
        None \<Rightarrow> []
      | Some r \<Rightarrow> (case logs r of None \<Rightarrow> [] | Some ls \<Rightarrow> ls))"

text \<open>
  The specification's wording of the event extractor, to compare with \<open>getEvent\<close>:
  decode each log entry in receipt order and return the first decoded event whose name
  matches, absent if there is none. Where the specification has an undecodable entry
  skipped, the outcome of decoding is kept: the first entry that raises or matches
  decides.
\<close>

definition spec_getEvent ::
  "Contract option \<Rightarrow> string \<Rightarrow> TransactionReceipt option \<Rightarrow> jsError + LogDescription option" where
  "spec_getEvent c eventName receipt =
     (case c of
        None \<Rightarrow> Inr None
      | Some c' \<Rightarrow>
          (case List.find (endsScan eventName) (map (parseLog c') (receiptLogs receipt)) of
             None \<Rightarrow> Inr None
           | Some r \<Rightarrow> r))"

text \<open>
  The specification's wording proper, for a receipt on whose logs decoding does not
  raise: drop the entries that do not decode, return the first event whose name matches.
\<close>

definition spec_firstMatch :: "Contract \<Rightarrow> string \<Rightarrow> log list \<Rightarrow> LogDescription option" where
  "spec_firstMatch c eventName ls =
     List.find (\<lambda>ev. name ev = eventName)
       (List.map_filter (\<lambda>l. case parseLog c l of Inl e \<Rightarrow> None | Inr ev \<Rightarrow> ev) ls)"

subsection \<open>Concrete collaborators\<close>

text \<open>
  A wallet, a contract and receipts on which the theorems are exercised. The contract
  answers a range query with its two bounds as token identifiers, so that the bounds it
  was asked for are visible in the answer.
\<close>

definition foreignLog :: log where
  "foreignLog =
     \<lparr>address = ''0x0000000000000000000000000000000000000001'', topics = [''Unknown''], data = []\<rparr>"

definition transferLog :: log where
  "transferLog = \<lparr>address = contractAddress, topics = [''Transfer''], data = []\<rparr>"

definition mintedLog :: log where
  "mintedLog = \<lparr>address = contractAddress, topics = [''TokenMinted''], data = ''7''\<rparr>"

definition bigMintedLog :: log where
  "bigMintedLog =
     \<lparr>address = contractAddress, topics = [''TokenMinted''], data = ''9007199254740993''\<rparr>"

text \<open>A log without topics, as an anonymous event of another contract leaves it.\<close>

definition toplessLog :: log where
  "toplessLog =
     \<lparr>address = ''0x0000000000000000000000000000000000000002'', topics = [], data = []\<rparr>"

definition demoParseLog :: "log \<Rightarrow> jsError + LogDescription option" where
  "demoParseLog l =
     (if topics l = [] then
        Inl (TypeError ''Cannot read properties of undefined (reading 'indexOf')'')
      else if topics l = [''TokenMinted''] then
        Inr (Some \<lparr>name = ''TokenMinted'',
                   args = [if data l = ''7'' then BigIntV 7 else BigIntV 9007199254740993,
                           BigIntV 0]\<rparr>)
      else if topics l = [''Transfer''] then Inr (Some \<lparr>name = ''Transfer'', args = []\<rparr>)
      else Inr None)"

definition txWithLogs :: "log list \<Rightarrow> TransactionResponse" where
  "txWithLogs ls = \<lparr>hash = ''0xabc'', wait = Inr (Some \<lparr>logs = Some ls\<rparr>)\<rparr>"

definition demoContract :: Contract where
  "demoContract =
     \<lparr>parseLog = demoParseLog,
      c_mintToken = (\<lambda>cid key.
         if cid = ''Qm123'' then Inr (txWithLogs [foreignLog, transferLog, mintedLog, bigMintedLog])
         else if cid = ''QmBig'' then Inr (txWithLogs [bigMintedLog])
         else if cid = ''QmTopless'' then Inr (txWithLogs [toplessLog])
         else Inr (txWithLogs [foreignLog, transferLog])),
      c_getTokensInRange = (\<lambda>s e. Inr ([NumV s, NumV e], [''QmStart'', ''QmEnd''])),
      c_getSharedTokensInRange = (\<lambda>s e. Inr ([NumV s, NumV e], [''QmStart'', ''QmEnd''])),
      c_getSharedWithAddresses = (\<lambda>t. Inr []),
      c_transferToken = (\<lambda>to t. Inr (txWithLogs [])),
      c_shareToken = (\<lambda>t to. Inr (txWithLogs [])),
      c_burnToken = (\<lambda>t n. Inr (txWithLogs [])),
      c_getSupply = Inr (BigIntV 3),
      c_getSharedWithSupply = Inr (BigIntV 1),
      c_reencrypt = (\<lambda>t k s. Inr (Some [])),
      c_revokeTokenAccess = (\<lambda>t u. Inr (txWithLogs [])),
      c_revokeAllSharedAccess = (\<lambda>t n. Inr (txWithLogs [])),
      c_MAX_USERS_TO_REMOVE = Inr (BigIntV 10)\<rparr>"

definition demoSigner :: Signer where
  "demoSigner = \<lparr>getAddress = Inr ''0x1111111111111111111111111111111111111111''\<rparr>"

definition demoProvider :: BrowserProvider where
  "demoProvider = \<lparr>getSigner = Inr demoSigner, send = (\<lambda>m. Inr ())\<rparr>"

definition connectedWorld :: world where
  "connectedWorld =
     \<lparr>provider = Some demoProvider, signer = Some demoSigner, contract = Some demoContract,
      trace = []\<rparr>"

text \<open>Connection State after an initialisation that found no wallet, or failed.\<close>

definition absentWorld :: world where
  "absentWorld = \<lparr>provider = None, signer = None, contract = None, trace = []\<rparr>"

text \<open>A browser without a wallet, and one whose wallet refuses the account request.\<close>

definition noWalletEnv :: env where
  "noWalletEnv =
     \<lparr>window_ethereum = None,
      new_BrowserProvider = (\<lambda>eth. Inr demoProvider),
      new_Contract = (\<lambda>a s. Inr demoContract)\<rparr>"

definition walletEnv :: env where
  "walletEnv =
     \<lparr>window_ethereum = Some \<lparr>request = (\<lambda>m. Inr ())\<rparr>,
      new_BrowserProvider = (\<lambda>eth. Inr demoProvider),
      new_Contract = (\<lambda>a s. Inr demoContract)\<rparr>"

definition refusingWalletEnv :: env where
  "refusingWalletEnv =
     \<lparr>window_ethereum = Some \<lparr>request = (\<lambda>m. Inl (ExternalError ''User rejected the request.''))\<rparr>,
      new_BrowserProvider = (\<lambda>eth. Inr demoProvider),
      new_Contract = (\<lambda>a s. Inr demoContract)\<rparr>"

section \<open>Properties\<close>

lemmas js_simps = return_js_def throw_js_def bind_js_def try_catch_def perform_def
  console_error_def console_warn_def console_log_def contract_call_def tx_wait_def tx_hash_def

subsection \<open>Numbers\<close>

lemma bitlen_le: "m < 2 ^ k \<Longrightarrow> bitlen m \<le> k"
proof (induction k arbitrary: m)
  case 0
  then show ?case by (simp add: bitlen.simps)
next
  case (Suc k)
  show ?case
  proof (cases "m \<le> 0")
    case True
    then show ?thesis by (simp add: bitlen.simps)
  next
    case False
    from Suc.prems have "m div 2 < 2 ^ k" by simp
    from Suc.IH [OF this] False show ?thesis
      by (subst bitlen.simps) simp
  qed
qed

text \<open>Below \<open>2 ^ 53\<close> in magnitude every integer is a double: the conversion is exact.\<close>

lemma to_double_safe: "\<bar>n\<bar> < 2 ^ 53 \<Longrightarrow> to_double n = Fin n"
proof -
  assume a: "\<bar>n\<bar> < 2 ^ 53"
  then have "bitlen \<bar>n\<bar> \<le> 53" by (rule bitlen_le)
  with a show ?thesis
    by (simp add: to_double_def round_double_def Let_def)
qed

text \<open>\<open>2 ^ 53 + 1\<close> is the first integer that is not a double: it rounds to \<open>2 ^ 53\<close>.\<close>

lemma to_double_2_53_plus_1: "to_double 9007199254740993 = Fin 9007199254740992"
  by code_simp

lemma js_add_safe:
  "0 \<le> a \<Longrightarrow> 0 \<le> b \<Longrightarrow> a + b < 2 ^ 53 \<Longrightarrow> js_add (Fin a) (Fin b) = Fin (a + b)"
  by (simp add: to_double_safe)

subsection \<open>Event extractor\<close>

lemma scanLogs_absent: "scanLogs None eventName ls = Inr None"
  by (induction ls) simp_all

lemma scanLogs_spec:
  "scanLogs (Some c) eventName ls =
     (case List.find (endsScan eventName) (map (parseLog c) ls) of
        None \<Rightarrow> Inr None
      | Some r \<Rightarrow> r)"
  by (induction ls) (auto simp: endsScan_def split: sum.splits option.splits)

lemma scanLogs_first:
  "\<forall>l' \<in> set pre. passedOver c eventName l' \<Longrightarrow>
   parseLog c l = Inr (Some ev) \<Longrightarrow> name ev = eventName \<Longrightarrow>
   scanLogs (Some c) eventName (pre @ l # post) = Inr (Some ev)"
  by (induction pre) (auto simp: passedOver_def split: sum.splits option.splits)

lemma scanLogs_raise:
  "\<forall>l' \<in> set pre. passedOver c eventName l' \<Longrightarrow> parseLog c l = Inl e \<Longrightarrow>
   scanLogs (Some c) eventName (pre @ l # post) = Inl e"
  by (induction pre) (auto simp: passedOver_def split: sum.splits option.splits)

lemma scanLogs_no_match:
  "\<forall>l \<in> set ls. \<not> decodesTo c eventName l \<Longrightarrow>
   scanLogs (Some c) eventName ls =
     (case parseErrors c ls of [] \<Rightarrow> Inr None | e # es \<Rightarrow> Inl e)"
  by (induction ls)
    (auto simp: decodesTo_def parseErrors_def map_filter_simps split: sum.splits option.splits)

lemma scanLogs_no_raise:
  "parseErrors c ls = [] \<Longrightarrow>
   scanLogs (Some c) eventName ls = Inr (spec_firstMatch c eventName ls)"
  by (induction ls)
    (auto simp: parseErrors_def spec_firstMatch_def map_filter_simps
      split: sum.splits option.splits)

lemma getEvent_confirmed:
  "wait t = Inr receipt \<Longrightarrow>
   getEvent (Some t) eventName w =
     (case contract w of
        None \<Rightarrow> Inr None
      | Some c \<Rightarrow> scanLogs (Some c) eventName (receiptLogs receipt),
      w\<lparr>trace := trace w @ [TxWait]\<rparr>)"
  by (auto simp: getEvent_def js_simps receiptLogs_def scanLogs_absent split: option.splits)

text \<open>Without a receipt there is no scan: \<open>getEvent\<close> raises.\<close>

lemma getEvent_undefined_tx:
  "getEvent None eventName w =
     (Inl (TypeError ''Cannot read properties of undefined (reading 'wait')''), w)"
  by (simp add: getEvent_def js_simps)

lemma getEvent_wait_rejects:
  "wait t = Inl e \<Longrightarrow>
   getEvent (Some t) eventName w = (Inl e, w\<lparr>trace := trace w @ [TxWait]\<rparr>)"
  by (simp add: getEvent_def js_simps)

text \<open>
  C4, as amended. Once the confirmation wait has produced the receipt, \<open>getEvent\<close> scans
  the logs in receipt order, and the first log on which decoding raises, or which
  decodes to an event named \<open>eventName\<close>, decides: \<open>getEvent\<close> raises that exception, or
  returns that event. Logs that decode to \<open>null\<close> or to another event are passed over,
  and the result is \<open>null\<close> when no log decides, the log list is empty, or the receipt
  has no logs. In particular, where decoding raises on no log of the receipt,
  \<open>getEvent\<close> returns without raising the first decoded event whose name matches.
\<close>

theorem getEvent_first_outcome:
  assumes "wait t = Inr receipt"
  shows "getEvent (Some t) eventName w =
           (spec_getEvent (contract w) eventName receipt, w\<lparr>trace := trace w @ [TxWait]\<rparr>) \<and>
         (contract w = Some c \<and> parseErrors c (receiptLogs receipt) = [] \<longrightarrow>
            getEvent (Some t) eventName w =
              (Inr (spec_firstMatch c eventName (receiptLogs receipt)),
               w\<lparr>trace := trace w @ [TxWait]\<rparr>))"
  using assms
  by (simp add: getEvent_confirmed spec_getEvent_def scanLogs_spec scanLogs_no_raise [symmetric]
      split: option.splits)

text \<open>
  On a receipt of four logs (a foreign one, a Transfer, two TokenMinted), none of which
  makes decoding raise, the first TokenMinted event, with first argument 7, is selected.
\<close>

theorem getEvent_first_outcome_witness:
  "getEvent (Some (txWithLogs [foreignLog, transferLog, mintedLog, bigMintedLog]))
     ''TokenMinted'' connectedWorld =
     (Inr (Some \<lparr>name = ''TokenMinted'', args = [BigIntV 7, BigIntV 0]\<rparr>),
      connectedWorld\<lparr>trace := trace connectedWorld @ [TxWait]\<rparr>)"
proof -
  have h: "wait (txWithLogs [foreignLog, transferLog, mintedLog, bigMintedLog]) =
      Inr (Some \<lparr>logs = Some [foreignLog, transferLog, mintedLog, bigMintedLog]\<rparr>)"
    by (simp add: txWithLogs_def)
  have c: "contract connectedWorld = Some demoContract"
    by (simp add: connectedWorld_def)
  have ls: "receiptLogs (Some \<lparr>logs = Some [foreignLog, transferLog, mintedLog, bigMintedLog]\<rparr>) =
      [foreignLog, transferLog, mintedLog, bigMintedLog]"
    by (simp add: receiptLogs_def)
  have e: "parseErrors demoContract [foreignLog, transferLog, mintedLog, bigMintedLog] = []"
    by (simp add: parseErrors_def demoContract_def demoParseLog_def foreignLog_def
        transferLog_def mintedLog_def bigMintedLog_def map_filter_simps)
  have m: "spec_firstMatch demoContract ''TokenMinted''
             [foreignLog, transferLog, mintedLog, bigMintedLog] =
           Some \<lparr>name = ''TokenMinted'', args = [BigIntV 7, BigIntV 0]\<rparr>"
    by (simp add: spec_firstMatch_def demoContract_def demoParseLog_def foreignLog_def
        transferLog_def mintedLog_def bigMintedLog_def map_filter_simps)
  from getEvent_first_outcome [OF h, of "''TokenMinted''" connectedWorld demoContract]
  have "contract connectedWorld = Some demoContract \<and>
        parseErrors demoContract
          (receiptLogs (Some \<lparr>logs = Some [foreignLog, transferLog, mintedLog, bigMintedLog]\<rparr>)) = [] \<longrightarrow>
        getEvent (Some (txWithLogs [foreignLog, transferLog, mintedLog, bigMintedLog]))
          ''TokenMinted'' connectedWorld =
          (Inr (spec_firstMatch demoContract ''TokenMinted''
                 (receiptLogs (Some \<lparr>logs = Some [foreignLog, transferLog, mintedLog, bigMintedLog]\<rparr>))),
           connectedWorld\<lparr>trace := trace connectedWorld @ [TxWait]\<rparr>)"
    by (rule conjunct2)
  with c e have "getEvent (Some (txWithLogs [foreignLog, transferLog, mintedLog, bigMintedLog]))
          ''TokenMinted'' connectedWorld =
          (Inr (spec_firstMatch demoContract ''TokenMinted''
                 (receiptLogs (Some \<lparr>logs = Some [foreignLog, transferLog, mintedLog, bigMintedLog]\<rparr>))),
           connectedWorld\<lparr>trace := trace connectedWorld @ [TxWait]\<rparr>)"
    by (simp only: ls simp_thms)
  then show ?thesis by (simp only: ls m)
qed

text \<open>
  C4 as stated fails: on the receipt \<open>[toplessLog, mintedLog]\<close> decoding raises on the
  first log, a log of no event of the interface, and \<open>getEvent\<close> raises that TypeError
  instead of passing the log over and returning the TokenMinted event that follows.
\<close>

theorem getEvent_undecodable_log_counterexample:
  "parseLog demoContract mintedLog =
     Inr (Some \<lparr>name = ''TokenMinted'', args = [BigIntV 7, BigIntV 0]\<rparr>) \<and>
   getEvent (Some (txWithLogs [toplessLog, mintedLog])) ''TokenMinted'' connectedWorld =
     (Inl (TypeError ''Cannot read properties of undefined (reading 'indexOf')''),
      connectedWorld\<lparr>trace := trace connectedWorld @ [TxWait]\<rparr>)"
proof -
  have h: "wait (txWithLogs [toplessLog, mintedLog]) =
      Inr (Some \<lparr>logs = Some [toplessLog, mintedLog]\<rparr>)"
    by (simp add: txWithLogs_def)
  have c: "contract connectedWorld = Some demoContract"
    by (simp add: connectedWorld_def)
  have p: "parseLog demoContract toplessLog =
      Inl (TypeError ''Cannot read properties of undefined (reading 'indexOf')'')"
    by (simp add: demoContract_def demoParseLog_def toplessLog_def)
  have q: "parseLog demoContract mintedLog =
      Inr (Some \<lparr>name = ''TokenMinted'', args = [BigIntV 7, BigIntV 0]\<rparr>)"
    by (simp add: demoContract_def demoParseLog_def mintedLog_def)
  from getEvent_confirmed [OF h, of "''TokenMinted''" connectedWorld] c p q
  show ?thesis by (simp add: receiptLogs_def)
qed

text \<open>
  C10. With no contract bound, \<open>getEvent\<close> returns \<open>null\<close> for every event name and
  every receipt the confirmation wait produces, however many logs it holds.
\<close>

theorem getEvent_without_contract:
  "contract w = None \<Longrightarrow> wait t = Inr receipt \<Longrightarrow>
   getEvent (Some t) eventName w = (Inr None, w\<lparr>trace := trace w @ [TxWait]\<rparr>)"
  by (simp add: getEvent_confirmed)

theorem getEvent_without_contract_witness:
  "getEvent (Some (txWithLogs [foreignLog, transferLog, mintedLog, bigMintedLog]))
     ''TokenMinted'' absentWorld =
     (Inr None, absentWorld\<lparr>trace := trace absentWorld @ [TxWait]\<rparr>)"
proof -
  have h1: "contract absentWorld = None"
    by (simp add: absentWorld_def)
  have h2: "wait (txWithLogs [foreignLog, transferLog, mintedLog, bigMintedLog]) =
      Inr (Some \<lparr>logs = Some [foreignLog, transferLog, mintedLog, bigMintedLog]\<rparr>)"
    by (simp add: txWithLogs_def)
  from getEvent_without_contract [OF h1 h2] show ?thesis .
qed

subsection \<open>Minting\<close>

text \<open>
  What \<open>mintToken\<close> does once the contract call has returned a transaction and the
  transaction has confirmed: an exception of the scan is logged and re-thrown like the
  missing event.
\<close>

lemma mintToken_confirmed:
  "contract w = Some c \<Longrightarrow> c_mintToken c cid key = Inr tx \<Longrightarrow> wait tx = Inr receipt \<Longrightarrow>
   mintToken cid key w =
     (case scanLogs (Some c) ''TokenMinted'' (receiptLogs receipt) of
        Inl e \<Rightarrow>
          (Inl e,
           w\<lparr>trace := trace w @ [ContractCall ''mintToken'', TxWait,
                                   ConsoleError ''Error in contract.mintToken:'']\<rparr>)
      | Inr None \<Rightarrow>
          (Inl (ErrorMsg ''TokenMinted event not found.''),
           w\<lparr>trace := trace w @ [ContractCall ''mintToken'', TxWait,
                                   ConsoleError ''Error in contract.mintToken:'']\<rparr>)
      | Inr (Some ev) \<Rightarrow>
          (Inr \<lparr>tokenId = NumV (Number (or_undefined (index_opt (args ev) 0))),
                cidHash = Some cid\<rparr>,
           w\<lparr>trace := trace w @ [ContractCall ''mintToken'', TxWait]\<rparr>))"
  by (simp add: mintToken_def bind_js_def try_catch_def contract_call_def perform_def
      getEvent_confirmed throw_js_def return_js_def console_error_def
      split: option.splits sum.splits)

text \<open>
  C1, as amended. If the transaction confirms, decoding passes over the logs of the
  receipt up to the first one that decodes to a TokenMinted event (each decodes, without
  raising, to \<open>null\<close> or to another event), and that event has as first argument the
  integer \<open>n\<close>, given as a JavaScript number or as a bigint below \<open>2 ^ 53\<close> in magnitude,
  then \<open>mintToken\<close> returns the record with \<open>tokenId\<close> \<open>n\<close> and the \<open>cidHash\<close> it was
  called with.
\<close>

theorem mintToken_returns_minted_id:
  assumes "contract w = Some c" and "c_mintToken c cid key = Inr tx" and "wait tx = Inr receipt"
    and "receiptLogs receipt = pre @ l # post"
    and "\<forall>l' \<in> set pre. passedOver c ''TokenMinted'' l'"
    and "parseLog c l = Inr (Some ev)" and "name ev = ''TokenMinted''"
    and "args ev = v # rest" and "v = NumV (Fin n) \<or> (v = BigIntV n \<and> \<bar>n\<bar> < 2 ^ 53)"
  shows "mintToken cid key w =
           (Inr \<lparr>tokenId = NumV (Fin n), cidHash = Some cid\<rparr>,
            w\<lparr>trace := trace w @ [ContractCall ''mintToken'', TxWait]\<rparr>)"
proof -
  from assms(4,5,6,7)
  have "scanLogs (Some c) ''TokenMinted'' (receiptLogs receipt) = Inr (Some ev)"
    by (simp add: scanLogs_first)
  moreover have "Number v = Fin n"
    using assms(9) by (auto simp: to_double_safe)
  ultimately show ?thesis
    using assms(1,2,3,8) by (simp add: mintToken_confirmed index_opt_def or_undefined_def)
qed

text \<open>
  The scenario of the specification: \<open>mintToken("Qm123", [bytes])\<close> on a receipt whose
  third log is the first to decode to TokenMinted, with arguments \<open>[7, 0]\<close>.
\<close>

theorem mintToken_returns_minted_id_witness:
  "mintToken ''Qm123'' [[1, 2, 3]] connectedWorld =
     (Inr \<lparr>tokenId = NumV (Fin 7), cidHash = Some ''Qm123''\<rparr>,
      connectedWorld\<lparr>trace := trace connectedWorld @ [ContractCall ''mintToken'', TxWait]\<rparr>)"
proof -
  have h1: "contract connectedWorld = Some demoContract"
    by (simp add: connectedWorld_def)
  have h2: "c_mintToken demoContract ''Qm123'' [[1, 2, 3]] =
      Inr (txWithLogs [foreignLog, transferLog, mintedLog, bigMintedLog])"
    by (simp add: demoContract_def)
  have h3: "wait (txWithLogs [foreignLog, transferLog, mintedLog, bigMintedLog]) =
      Inr (Some \<lparr>logs = Some [foreignLog, transferLog, mintedLog, bigMintedLog]\<rparr>)"
    by (simp add: txWithLogs_def)
  have h4: "receiptLogs (Some \<lparr>logs = Some [foreignLog, transferLog, mintedLog, bigMintedLog]\<rparr>) =
      [foreignLog, transferLog] @ mintedLog # [bigMintedLog]"
    by (simp add: receiptLogs_def)
  have h5: "\<forall>l' \<in> set [foreignLog, transferLog]. passedOver demoContract ''TokenMinted'' l'"
    by (simp add: passedOver_def demoContract_def demoParseLog_def foreignLog_def
        transferLog_def)
  have h6: "parseLog demoContract mintedLog =
      Inr (Some \<lparr>name = ''TokenMinted'', args = [BigIntV 7, BigIntV 0]\<rparr>)"
    by (simp add: demoContract_def demoParseLog_def mintedLog_def)
  have h7: "name \<lparr>name = ''TokenMinted'', args = [BigIntV 7, BigIntV 0]\<rparr> = ''TokenMinted''"
    by simp
  have h8: "args \<lparr>name = ''TokenMinted'', args = [BigIntV 7, BigIntV 0]\<rparr> = BigIntV 7 # [BigIntV 0]"
    by simp
  have h9: "BigIntV 7 = NumV (Fin 7) \<or> (BigIntV 7 = BigIntV 7 \<and> \<bar>7::int\<bar> < 2 ^ 53)"
    by simp
  from mintToken_returns_minted_id [OF h1 h2 h3 h4 h5 h6 h7 h8 h9] show ?thesis .
qed

text \<open>
  C1 as stated fails for a large identifier: the only log of the receipt decodes to
  TokenMinted with first argument \<open>2 ^ 53 + 1\<close> (a bigint), and the \<open>tokenId\<close> returned is
  \<open>2 ^ 53\<close>, the nearest double.
\<close>

theorem mintToken_large_id_counterexample:
  "parseLog demoContract bigMintedLog =
     Inr (Some \<lparr>name = ''TokenMinted'', args = [BigIntV 9007199254740993, BigIntV 0]\<rparr>) \<and>
   fst (mintToken ''QmBig'' [[1, 2, 3]] connectedWorld) =
     Inr \<lparr>tokenId = NumV (Fin 9007199254740992), cidHash = Some ''QmBig''\<rparr>"
proof -
  have h1: "contract connectedWorld = Some demoContract"
    by (simp add: connectedWorld_def)
  have h2: "c_mintToken demoContract ''QmBig'' [[1, 2, 3]] = Inr (txWithLogs [bigMintedLog])"
    by (simp add: demoContract_def)
  have h3: "wait (txWithLogs [bigMintedLog]) = Inr (Some \<lparr>logs = Some [bigMintedLog]\<rparr>)"
    by (simp add: txWithLogs_def)
  have p: "parseLog demoContract bigMintedLog =
     Inr (Some \<lparr>name = ''TokenMinted'', args = [BigIntV 9007199254740993, BigIntV 0]\<rparr>)"
    by (simp add: demoContract_def demoParseLog_def bigMintedLog_def)
  have "scanLogs (Some demoContract) ''TokenMinted''
          (receiptLogs (Some \<lparr>logs = Some [bigMintedLog]\<rparr>)) =
        Inr (Some \<lparr>name = ''TokenMinted'', args = [BigIntV 9007199254740993, BigIntV 0]\<rparr>)"
    by (simp add: receiptLogs_def p)
  with mintToken_confirmed [OF h1 h2 h3] p show ?thesis
    by (simp add: index_opt_def or_undefined_def to_double_2_53_plus_1)
qed

text \<open>
  A log on which decoding raises, ahead of the TokenMinted log, makes \<open>mintToken\<close> log
  and re-throw that exception.
\<close>

lemma mintToken_parseLog_raises:
  assumes "contract w = Some c" and "c_mintToken c cid key = Inr tx" and "wait tx = Inr receipt"
    and "receiptLogs receipt = pre @ l # post"
    and "\<forall>l' \<in> set pre. passedOver c ''TokenMinted'' l'"
    and "parseLog c l = Inl e"
  shows "mintToken cid key w =
           (Inl e,
            w\<lparr>trace := trace w @ [ContractCall ''mintToken'', TxWait,
                                    ConsoleError ''Error in contract.mintToken:'']\<rparr>)"
proof -
  from assms(4,5,6) have "scanLogs (Some c) ''TokenMinted'' (receiptLogs receipt) = Inl e"
    by (simp add: scanLogs_raise)
  with assms(1,2,3) show ?thesis
    by (simp add: mintToken_confirmed)
qed

text \<open>
  C3, as amended. If the transaction confirms and no log of its receipt decodes to a
  TokenMinted event, \<open>mintToken\<close> raises an error (logged, then re-thrown) and returns
  no TokenDetails. The error is \<open>TokenMinted event not found.\<close> where decoding raises on
  no log of the receipt, and otherwise the exception of the first log on which it
  raises.
\<close>

theorem mintToken_event_not_found:
  assumes "contract w = Some c" and "c_mintToken c cid key = Inr tx" and "wait tx = Inr receipt"
    and "\<forall>l \<in> set (receiptLogs receipt). \<not> decodesTo c ''TokenMinted'' l"
  shows "mintToken cid key w =
           (Inl (case parseErrors c (receiptLogs receipt) of
                   [] \<Rightarrow> ErrorMsg ''TokenMinted event not found.''
                 | e # es \<Rightarrow> e),
            w\<lparr>trace := trace w @ [ContractCall ''mintToken'', TxWait,
                                    ConsoleError ''Error in contract.mintToken:'']\<rparr>)"
  using assms by (simp add: mintToken_confirmed scanLogs_no_match split: list.splits)

text \<open>
  On a receipt with a foreign log and a Transfer, neither of which makes decoding raise,
  the error is \<open>TokenMinted event not found.\<close>
\<close>

theorem mintToken_event_not_found_witness:
  "mintToken ''QmNone'' [] connectedWorld =
     (Inl (ErrorMsg ''TokenMinted event not found.''),
      connectedWorld\<lparr>trace := trace connectedWorld @ [ContractCall ''mintToken'', TxWait,
                                    ConsoleError ''Error in contract.mintToken:'']\<rparr>)"
proof -
  have h1: "contract connectedWorld = Some demoContract"
    by (simp add: connectedWorld_def)
  have h2: "c_mintToken demoContract ''QmNone'' [] = Inr (txWithLogs [foreignLog, transferLog])"
    by (simp add: demoContract_def)
  have h3: "wait (txWithLogs [foreignLog, transferLog]) =
      Inr (Some \<lparr>logs = Some [foreignLog, transferLog]\<rparr>)"
    by (simp add: txWithLogs_def)
  have h4: "\<forall>l \<in> set (receiptLogs (Some \<lparr>logs = Some [foreignLog, transferLog]\<rparr>)).
      \<not> decodesTo demoContract ''TokenMinted'' l"
    by (simp add: receiptLogs_def decodesTo_def demoContract_def demoParseLog_def
        foreignLog_def transferLog_def)
  have e: "parseErrors demoContract (receiptLogs (Some \<lparr>logs = Some [foreignLog, transferLog]\<rparr>)) = []"
    by (simp add: receiptLogs_def parseErrors_def demoContract_def demoParseLog_def
        foreignLog_def transferLog_def map_filter_simps)
  from mintToken_event_not_found [OF h1 h2 h3 h4] show ?thesis
    by (simp add: e)
qed

text \<open>
  C3 as stated fails: the receipt \<open>[toplessLog]\<close> holds no log decoding to TokenMinted,
  and the error \<open>mintToken\<close> raises is the TypeError of the decoder, not
  \<open>TokenMinted event not found.\<close>
\<close>

theorem mintToken_undecodable_log_counterexample:
  "c_mintToken demoContract ''QmTopless'' [] = Inr (txWithLogs [toplessLog]) \<and>
   fst (mintToken ''QmTopless'' [] connectedWorld) =
     Inl (TypeError ''Cannot read properties of undefined (reading 'indexOf')'')"
proof -
  have h1: "contract connectedWorld = Some demoContract"
    by (simp add: connectedWorld_def)
  have h2: "c_mintToken demoContract ''QmTopless'' [] = Inr (txWithLogs [toplessLog])"
    by (simp add: demoContract_def)
  have h3: "wait (txWithLogs [toplessLog]) = Inr (Some \<lparr>logs = Some [toplessLog]\<rparr>)"
    by (simp add: txWithLogs_def)
  have p: "parseLog demoContract toplessLog =
      Inl (TypeError ''Cannot read properties of undefined (reading 'indexOf')'')"
    by (simp add: demoContract_def demoParseLog_def toplessLog_def)
  from mintToken_confirmed [OF h1 h2 h3] h2 p show ?thesis
    by (simp add: receiptLogs_def)
qed

text \<open>Without a contract \<open>mintToken\<close> raises too: the TypeError of \<open>getEvent\<close>, logged.\<close>

lemma mintToken_absent:
  "contract w = None \<Longrightarrow>
   mintToken cid key w =
     (Inl (TypeError ''Cannot read properties of undefined (reading 'wait')''),
      w\<lparr>trace := trace w @ [ConsoleError ''Error in contract.mintToken:'']\<rparr>)"
  by (simp add: mintToken_def getEvent_def js_simps)

subsection \<open>Sharing\<close>

text \<open>
  C2, as amended. With an empty recipient list \<open>shareToken\<close> does not call the contract
  (the only effect is the logged error) and its result is the boolean \<open>false\<close>: the
  error is thrown inside the function's own \<open>try\<close> block and caught there.
\<close>

theorem shareToken_empty_returns_false:
  "shareToken [] tid w =
     (Inr False, w\<lparr>trace := trace w @ [ConsoleError ''Error contract.shareToken:'']\<rparr>)"
  by (simp add: shareToken_def js_simps)

text \<open>C2 as stated fails: the caller of \<open>shareToken([], 1)\<close> receives \<open>false\<close>, no error.\<close>

theorem shareToken_empty_counterexample:
  "fst (shareToken [] (Fin 1) connectedWorld) = Inr False"
  by (simp add: shareToken_def js_simps)

subsection \<open>Range queries\<close>

lemma mapTokens_length: "length (mapTokens i ts cs) = length ts"
  by (induction ts arbitrary: i) simp_all

lemma mapTokens_nth:
  "j < length ts \<Longrightarrow>
   mapTokens i ts cs ! j = \<lparr>tokenId = ts ! j, cidHash = index_opt cs (i + j)\<rparr>"
proof (induction ts arbitrary: i j)
  case Nil
  then show ?case by simp
next
  case (Cons t ts)
  then show ?case by (cases j) simp_all
qed

lemma mapTokens_equal_length:
  "length ids = length cids \<Longrightarrow> i < length ids \<Longrightarrow>
   mapTokens 0 ids cids ! i = \<lparr>tokenId = ids ! i, cidHash = Some (cids ! i)\<rparr>"
  by (simp add: mapTokens_nth index_opt_def)

text \<open>Where the cidHash array is shorter, the pair holds \<open>undefined\<close>: nothing is checked.\<close>

lemma mapTokens_short:
  "i < length ids \<Longrightarrow> length cids \<le> i \<Longrightarrow>
   mapTokens 0 ids cids ! i = \<lparr>tokenId = ids ! i, cidHash = None\<rparr>"
  by (simp add: mapTokens_nth index_opt_def)

lemma getTokensInRange_answer:
  "contract w = Some c \<Longrightarrow> c_getTokensInRange c start (js_add start count) = Inr (ids, cids) \<Longrightarrow>
   getTokensInRange start count w =
     (Inr (mapTokens 0 ids cids), w\<lparr>trace := trace w @ [ContractCall ''getTokensInRange'']\<rparr>)"
  by (simp add: getTokensInRange_def bind_js_def try_catch_def contract_call_def perform_def
      tokensOfResult_def return_js_def)

lemma getSharedTokensInRange_answer:
  "contract w = Some c \<Longrightarrow>
   c_getSharedTokensInRange c start (js_add start count) = Inr (ids, cids) \<Longrightarrow>
   getSharedTokensInRange start count w =
     (Inr (mapTokens 0 ids cids),
      w\<lparr>trace := trace w @ [ContractCall ''getSharedTokensInRange'']\<rparr>)"
  by (simp add: getSharedTokensInRange_def bind_js_def try_catch_def contract_call_def
      perform_def tokensOfResult_def return_js_def)

text \<open>
  C5, as amended. For integers \<open>start \<ge> 0\<close> and \<open>count \<ge> 0\<close> with \<open>start + count < 2 ^ 53\<close>,
  \<open>getTokensInRange(start, count)\<close> asks the contract once, for the bounds \<open>start\<close> and
  \<open>start + count\<close>, and, when the two arrays of the answer have equal length, returns a
  sequence of that length whose \<open>i\<close>-th element pairs the \<open>i\<close>-th token identifier with
  the \<open>i\<close>-th cidHash; the same holds for \<open>getSharedTokensInRange\<close>.
\<close>

theorem range_queries_pair_by_index:
  assumes "0 \<le> a" and "0 \<le> b" and "a + b < 2 ^ 53" and "contract w = Some c"
    and "length ids = length cids"
  shows "(c_getTokensInRange c (Fin a) (Fin (a + b)) = Inr (ids, cids) \<longrightarrow>
           (\<exists>ts. getTokensInRange (Fin a) (Fin b) w =
                    (Inr ts, w\<lparr>trace := trace w @ [ContractCall ''getTokensInRange'']\<rparr>) \<and>
                 length ts = length ids \<and>
                 (\<forall>i<length ids. ts ! i = \<lparr>tokenId = ids ! i, cidHash = Some (cids ! i)\<rparr>))) \<and>
         (c_getSharedTokensInRange c (Fin a) (Fin (a + b)) = Inr (ids, cids) \<longrightarrow>
           (\<exists>ts. getSharedTokensInRange (Fin a) (Fin b) w =
                    (Inr ts, w\<lparr>trace := trace w @ [ContractCall ''getSharedTokensInRange'']\<rparr>) \<and>
                 length ts = length ids \<and>
                 (\<forall>i<length ids. ts ! i = \<lparr>tokenId = ids ! i, cidHash = Some (cids ! i)\<rparr>)))"
proof -
  have e: "Fin (a + b) = js_add (Fin a) (Fin b)"
    using assms(1,2,3) by (simp only: js_add_safe)
  have m: "length (mapTokens 0 ids cids) = length ids \<and>
      (\<forall>i<length ids. mapTokens 0 ids cids ! i = \<lparr>tokenId = ids ! i, cidHash = Some (cids ! i)\<rparr>)"
    using assms(5) by (simp add: mapTokens_length mapTokens_equal_length)
  show ?thesis
  proof (intro conjI impI)
    assume "c_getTokensInRange c (Fin a) (Fin (a + b)) = Inr (ids, cids)"
    then have "c_getTokensInRange c (Fin a) (js_add (Fin a) (Fin b)) = Inr (ids, cids)"
      by (simp only: e)
    from getTokensInRange_answer [OF assms(4) this] m
    show "\<exists>ts. getTokensInRange (Fin a) (Fin b) w =
                    (Inr ts, w\<lparr>trace := trace w @ [ContractCall ''getTokensInRange'']\<rparr>) \<and>
                 length ts = length ids \<and>
                 (\<forall>i<length ids. ts ! i = \<lparr>tokenId = ids ! i, cidHash = Some (cids ! i)\<rparr>)"
      by blast
  next
    assume "c_getSharedTokensInRange c (Fin a) (Fin (a + b)) = Inr (ids, cids)"
    then have "c_getSharedTokensInRange c (Fin a) (js_add (Fin a) (Fin b)) = Inr (ids, cids)"
      by (simp only: e)
    from getSharedTokensInRange_answer [OF assms(4) this] m
    show "\<exists>ts. getSharedTokensInRange (Fin a) (Fin b) w =
                    (Inr ts, w\<lparr>trace := trace w @ [ContractCall ''getSharedTokensInRange'']\<rparr>) \<and>
                 length ts = length ids \<and>
                 (\<forall>i<length ids. ts ! i = \<lparr>tokenId = ids ! i, cidHash = Some (cids ! i)\<rparr>)"
      by blast
  qed
qed

text \<open>
  \<open>getTokensInRange(0, 2)\<close> and \<open>getSharedTokensInRange(0, 2)\<close> on the contract that
  answers with its bounds: the bounds asked for are 0 and 2, and the pairs are by index.
\<close>

theorem range_queries_pair_by_index_witness:
  "getTokensInRange (Fin 0) (Fin 2) connectedWorld =
     (Inr [\<lparr>tokenId = NumV (Fin 0), cidHash = Some ''QmStart''\<rparr>,
           \<lparr>tokenId = NumV (Fin 2), cidHash = Some ''QmEnd''\<rparr>],
      connectedWorld\<lparr>trace := trace connectedWorld @ [ContractCall ''getTokensInRange'']\<rparr>) \<and>
   getSharedTokensInRange (Fin 0) (Fin 2) connectedWorld =
     (Inr [\<lparr>tokenId = NumV (Fin 0), cidHash = Some ''QmStart''\<rparr>,
           \<lparr>tokenId = NumV (Fin 2), cidHash = Some ''QmEnd''\<rparr>],
      connectedWorld\<lparr>trace := trace connectedWorld @ [ContractCall ''getSharedTokensInRange'']\<rparr>)"
proof -
  have h4: "contract connectedWorld = Some demoContract"
    by (simp add: connectedWorld_def)
  have h5: "length [NumV (Fin 0), NumV (Fin 2)] = length [''QmStart'', ''QmEnd'']"
    by simp
  have r1: "c_getTokensInRange demoContract (Fin 0) (Fin (0 + 2)) =
      Inr ([NumV (Fin 0), NumV (Fin 2)], [''QmStart'', ''QmEnd''])"
    by (simp add: demoContract_def)
  have r2: "c_getSharedTokensInRange demoContract (Fin 0) (Fin (0 + 2)) =
      Inr ([NumV (Fin 0), NumV (Fin 2)], [''QmStart'', ''QmEnd''])"
    by (simp add: demoContract_def)
  have two: "ts = [x, y]" if "length ts = 2" "ts ! 0 = x" "ts ! 1 = y"
    for ts :: "TokenDetails list" and x y
    using that by (cases ts; cases "tl ts") auto
  from range_queries_pair_by_index [of 0 2 connectedWorld demoContract
      "[NumV (Fin 0), NumV (Fin 2)]" "[''QmStart'', ''QmEnd'']", OF _ _ _ h4 h5] r1 r2
  show ?thesis
    by (auto simp: less_Suc_eq numeral_2_eq_2 intro!: two)
qed

text \<open>
  C5 as stated fails for large bounds: \<open>getTokensInRange(2 ^ 53, 1)\<close> computes the end
  bound \<open>2 ^ 53 + 1\<close> in double arithmetic, which is \<open>2 ^ 53\<close>, and asks the contract for
  the empty range from \<open>2 ^ 53\<close> to \<open>2 ^ 53\<close>.
\<close>

theorem getTokensInRange_large_bounds_counterexample:
  "js_add (Fin 9007199254740992) (Fin 1) = Fin 9007199254740992 \<and>
   fst (getTokensInRange (Fin 9007199254740992) (Fin 1) connectedWorld) =
     Inr [\<lparr>tokenId = NumV (Fin 9007199254740992), cidHash = Some ''QmStart''\<rparr>,
          \<lparr>tokenId = NumV (Fin 9007199254740992), cidHash = Some ''QmEnd''\<rparr>]"
proof -
  have e: "js_add (Fin 9007199254740992) (Fin 1) = Fin 9007199254740992"
    by (simp add: to_double_2_53_plus_1)
  then show ?thesis
    by (simp add: getTokensInRange_def bind_js_def try_catch_def contract_call_def perform_def
        tokensOfResult_def return_js_def index_opt_def connectedWorld_def demoContract_def)
qed

subsection \<open>Operations without a connection\<close>

text \<open>
  With no contract bound, the operations that dereference the missing transaction or
  answer fall into their \<open>catch\<close> block and return the default.
\<close>

lemma absent_defaults:
  assumes "contract w = None"
  shows "fst (transferToken to tid w) = Inr False"
    and "fst (shareToken to tid w) = Inr False"
    and "fst (burnToken tid lim w) = Inr False"
    and "fst (revokeTokenAccess tid u w) = Inr False"
    and "fst (revokeAllSharedAccess tid lim w) = Inr False"
    and "fst (getTokensInRange start count w) = Inr []"
    and "fst (getSharedTokensInRange start count w) = Inr []"
    and "fst (reencrypt tid pk sg w) = Inr []"
  using assms
  by (simp_all add: transferToken_def shareToken_def burnToken_def revokeTokenAccess_def
      revokeAllSharedAccess_def getTokensInRange_def getSharedTokensInRange_def reencrypt_def
      tokensOfResult_def js_simps)

text \<open>
  The operations that only pass the awaited value on do not: nothing is thrown, so the
  \<open>catch\<close> block does not run, and \<open>undefined\<close> (or its conversion) is the result.
\<close>

lemma absent_getMaxUsersToRemove:
  "contract w = None \<Longrightarrow> getMaxUsersToRemove w = (Inr Undefined, w)"
  by (simp add: getMaxUsersToRemove_def js_simps or_undefined_def)

lemma absent_getSharedWithAddresses:
  "contract w = None \<Longrightarrow> getSharedWithAddresses tid w = (Inr None, w)"
  by (simp add: getSharedWithAddresses_def js_simps)

lemma absent_getSupply: "contract w = None \<Longrightarrow> getSupply w = (Inr NaN, w)"
  by (simp add: getSupply_def js_simps or_undefined_def)

lemma absent_getSharedWithSupply: "contract w = None \<Longrightarrow> getSharedWithSupply w = (Inr NaN, w)"
  by (simp add: getSharedWithSupply_def js_simps or_undefined_def)

text \<open>
  C6 fails on the code. In the all-absent Connection State \<open>getMaxUsersToRemove()\<close>
  returns \<open>undefined\<close>, not 0, and \<open>getSharedWithAddresses(1)\<close> returns \<open>undefined\<close>, not
  the empty sequence; neither logs anything.
\<close>

theorem getMaxUsersToRemove_absent_undefined:
  "getMaxUsersToRemove absentWorld = (Inr Undefined, absentWorld) \<and>
   getSharedWithAddresses (Fin 1) absentWorld = (Inr None, absentWorld)"
  by (simp add: absent_getMaxUsersToRemove absent_getSharedWithAddresses absentWorld_def)

subsection \<open>Supply counts\<close>

lemma getSupply_rejected:
  "contract w = Some c \<Longrightarrow> c_getSupply c = Inl e \<Longrightarrow>
   getSupply w =
     (Inl e, w\<lparr>trace := trace w @ [ContractCall ''getSupply'',
                                    ConsoleError ''Failed to fetch the total number of NFTs:'']\<rparr>)"
  by (simp add: getSupply_def js_simps)

lemma getSharedWithSupply_rejected:
  "contract w = Some c \<Longrightarrow> c_getSharedWithSupply c = Inl e \<Longrightarrow>
   getSharedWithSupply w =
     (Inl e, w\<lparr>trace := trace w @ [ContractCall ''getSharedWithSupply'',
                                    ConsoleError ''Failed to fetch the total number of NFTs shared: '']\<rparr>)"
  by (simp add: getSharedWithSupply_def js_simps)

lemma getSupply_success:
  "contract w = Some c \<Longrightarrow> c_getSupply c = Inr v \<Longrightarrow>
   getSupply w = (Inr (Number v), w\<lparr>trace := trace w @ [ContractCall ''getSupply'']\<rparr>)"
  by (simp add: getSupply_def js_simps or_undefined_def)

lemma getSharedWithSupply_success:
  "contract w = Some c \<Longrightarrow> c_getSharedWithSupply c = Inr v \<Longrightarrow>
   getSharedWithSupply w =
     (Inr (Number v), w\<lparr>trace := trace w @ [ContractCall ''getSharedWithSupply'']\<rparr>)"
  by (simp add: getSharedWithSupply_def js_simps or_undefined_def)

text \<open>
  C7 fails on the code. In the all-absent Connection State \<open>getSupply()\<close> and
  \<open>getSharedWithSupply()\<close> return \<open>NaN\<close>: no error is logged and none reaches the caller.
\<close>

theorem getSupply_absent_NaN:
  "getSupply absentWorld = (Inr NaN, absentWorld) \<and>
   getSharedWithSupply absentWorld = (Inr NaN, absentWorld)"
  by (simp add: absent_getSupply absent_getSharedWithSupply absentWorld_def)

subsection \<open>Connection manager\<close>

text \<open>
  C8. \<open>initializeProviderAndSigner\<close> never raises, and whatever the browser, the wallet
  and the ethers constructors answer, it leaves provider, signer and contract all
  present or all absent.
\<close>

theorem initializeProviderAndSigner_all_or_nothing:
  "\<exists>w'. initializeProviderAndSigner ev w = (Inr (), w') \<and> (allPresent w' \<or> allAbsent w')"
  by (auto simp: initializeProviderAndSigner_def js_simps setAbsent_def allPresent_def
      allAbsent_def split: option.splits sum.splits prod.splits)

text \<open>The three outcomes, on concrete browsers.\<close>

lemma initialize_no_wallet:
  "initializeProviderAndSigner noWalletEnv connectedWorld =
     (Inr (), absentWorld\<lparr>trace :=
        [ConsoleWarn ''MetaMask or Web3 provider not found. Please install or enable it.'']\<rparr>)"
  by (simp add: initializeProviderAndSigner_def js_simps setAbsent_def noWalletEnv_def
      connectedWorld_def absentWorld_def)

lemma initialize_wallet:
  "initializeProviderAndSigner walletEnv absentWorld =
     (Inr (), connectedWorld\<lparr>trace :=
        [NewBrowserProvider, WalletRequest ''eth_requestAccounts'', GetSigner, NewContract]\<rparr>)"
  by (simp add: initializeProviderAndSigner_def js_simps walletEnv_def connectedWorld_def
      absentWorld_def demoProvider_def)

lemma initialize_refused:
  "initializeProviderAndSigner refusingWalletEnv absentWorld =
     (Inr (), absentWorld\<lparr>trace :=
        [NewBrowserProvider, WalletRequest ''eth_requestAccounts'',
         ConsoleError ''Error initializing Web3 provider:'']\<rparr>)"
  by (simp add: initializeProviderAndSigner_def js_simps setAbsent_def refusingWalletEnv_def
      absentWorld_def)

subsection \<open>Frame: the exported operations do not write Connection State\<close>

lemma frameD: "frame m \<Longrightarrow> conn (snd (m w)) = conn w"
  by (simp add: frame_def)

lemma frame_return: "frame (return_js a)"
  by (simp add: frame_def return_js_def)

lemma frame_throw: "frame (throw_js e)"
  by (simp add: frame_def throw_js_def)

lemma frame_perform: "frame (perform ef r)"
  by (simp add: frame_def perform_def conn_def)

lemma frame_bind: "frame m \<Longrightarrow> (\<And>a. frame (f a)) \<Longrightarrow> frame (bind_js m f)"
  unfolding frame_def bind_js_def
  by (auto split: prod.splits sum.splits) (metis snd_conv)+

lemma frame_try_catch: "frame m \<Longrightarrow> (\<And>e. frame (h e)) \<Longrightarrow> frame (try_catch m h)"
  unfolding frame_def try_catch_def
  by (auto split: prod.splits sum.splits) (metis snd_conv)+

lemma frame_contract_call: "frame (contract_call m f)"
  by (simp add: frame_def contract_call_def perform_def conn_def split: option.splits)

lemma frame_tx_wait: "frame (tx_wait tx)"
  by (cases tx) (simp_all add: tx_wait_def frame_throw frame_perform)

lemma frame_tx_hash: "frame (tx_hash tx)"
  by (cases tx) (simp_all add: tx_hash_def frame_throw frame_return)

lemma frame_console: "frame (console_error s)" "frame (console_warn s)" "frame (console_log s)"
  by (simp_all add: console_error_def console_warn_def console_log_def frame_perform)

lemma frame_getEvent: "frame (getEvent tx eventName)"
  unfolding getEvent_def
  by (rule frame_bind [OF frame_tx_wait]) (simp add: frame_def)

lemma frame_tokensOfResult: "frame (tokensOfResult r)"
  by (simp add: tokensOfResult_def frame_throw frame_return split: option.splits prod.splits)

lemmas frame_intros = frame_return frame_throw frame_perform frame_bind frame_try_catch
  frame_contract_call frame_tx_wait frame_tx_hash frame_console frame_getEvent
  frame_tokensOfResult

lemma frame_getAccount: "frame getAccount"
proof -
  have "conn (snd (getAccount w)) = conn w" for w
  proof (cases "provider w")
    case None
    then show ?thesis by (simp add: getAccount_def return_js_def)
  next
    case (Some p)
    show ?thesis
    proof (cases "signer w")
      case None
      with Some show ?thesis by (simp add: getAccount_def return_js_def)
    next
      case (Some s)
      have "frame (try_catch
            (bind_js (perform (ProviderSend ''eth_requestAccounts'') (send p ''eth_requestAccounts'')) (\<lambda>_.
             bind_js (perform GetAddress (getAddress s)) (\<lambda>account.
             if account = [] then
               bind_js (console_error ''No accessible accounts. Make sure MetaMask is connected.'') (\<lambda>_.
               return_js [])
             else return_js account)))
            (\<lambda>error.
               bind_js (console_error ''Could not get access to accounts:'') (\<lambda>_. return_js [])))"
        by (intro frame_intros) (simp add: frame_intros)
      with \<open>provider w = Some p\<close> Some show ?thesis
        by (simp add: getAccount_def frame_def)
    qed
  qed
  then show ?thesis by (simp add: frame_def)
qed

lemma frame_mintToken: "frame (mintToken cid key)"
  unfolding mintToken_def
  by (intro frame_intros) (simp_all add: frame_intros split: option.splits)

lemma frame_getTokensInRange: "frame (getTokensInRange start count)"
  unfolding getTokensInRange_def Let_def by (intro frame_intros)

lemma frame_getSharedTokensInRange: "frame (getSharedTokensInRange start count)"
  unfolding getSharedTokensInRange_def Let_def by (intro frame_intros)

lemma frame_getSharedWithAddresses: "frame (getSharedWithAddresses tid)"
  unfolding getSharedWithAddresses_def by (intro frame_intros)

lemma frame_transferToken: "frame (transferToken to tid)"
  unfolding transferToken_def by (intro frame_intros)

lemma frame_shareToken: "frame (shareToken to tid)"
  unfolding shareToken_def by (intro frame_intros) (simp add: frame_intros)

lemma frame_burnToken: "frame (burnToken tid lim)"
  unfolding burnToken_def by (intro frame_intros)

lemma frame_getSupply: "frame getSupply"
  unfolding getSupply_def by (intro frame_intros)

lemma frame_getSharedWithSupply: "frame getSharedWithSupply"
  unfolding getSharedWithSupply_def by (intro frame_intros)

lemma frame_reencrypt: "frame (reencrypt tid pk sg)"
  unfolding reencrypt_def
  by (intro frame_intros) (simp_all add: frame_intros split: option.splits)

lemma frame_revokeTokenAccess: "frame (revokeTokenAccess tid u)"
  unfolding revokeTokenAccess_def by (intro frame_intros)

lemma frame_revokeAllSharedAccess: "frame (revokeAllSharedAccess tid lim)"
  unfolding revokeAllSharedAccess_def by (intro frame_intros)

lemma frame_getMaxUsersToRemove: "frame getMaxUsersToRemove"
  unfolding getMaxUsersToRemove_def by (intro frame_intros)

text \<open>
  C9. Every exported operation, \<open>getAccount\<close> included, leaves provider, signer and
  contract as it found them, whatever the collaborators answer and whether it returns or
  raises; the only writer is \<open>initializeProviderAndSigner\<close> (see \<open>initialize_wallet\<close>).
\<close>

theorem exported_operations_preserve_connection:
  "conn (snd (getAccount w)) = conn w \<and>
   conn (snd (mintToken cid key w)) = conn w \<and>
   conn (snd (getTokensInRange start count w)) = conn w \<and>
   conn (snd (getSharedTokensInRange start count w)) = conn w \<and>
   conn (snd (getSharedWithAddresses tid w)) = conn w \<and>
   conn (snd (transferToken to tid w)) = conn w \<and>
   conn (snd (shareToken to tid w)) = conn w \<and>
   conn (snd (burnToken tid lim w)) = conn w \<and>
   conn (snd (getSupply w)) = conn w \<and>
   conn (snd (getSharedWithSupply w)) = conn w \<and>
   conn (snd (reencrypt tid pk sg w)) = conn w \<and>
   conn (snd (revokeTokenAccess tid u w)) = conn w \<and>
   conn (snd (revokeAllSharedAccess tid lim w)) = conn w \<and>
   conn (snd (getMaxUsersToRemove w)) = conn w"
  by (simp add: frameD frame_getAccount frame_mintToken frame_getTokensInRange
      frame_getSharedTokensInRange frame_getSharedWithAddresses frame_transferToken
      frame_shareToken frame_burnToken frame_getSupply frame_getSharedWithSupply frame_reencrypt
      frame_revokeTokenAccess frame_revokeAllSharedAccess frame_getMaxUsersToRemove)

end
